theory Spec2Isabelle
  imports Main "HOL-Library.Log_Nat" "HOL-Library.Sublist"
begin

section \<open>Python values and exceptions\<close>

text \<open>
  The program is one Flask module, \<^verbatim>\<open>app.py\<close>. Its functions handle dynamically typed
  values: whatever the request's JSON body and the geocoding service's JSON answer hold.
  Such a value is a \<open>pyval\<close>. A float is an IEEE double: \<open>Finite q\<close> stands for the double
  whose exact value is the rational \<open>q\<close> (every finite double is a rational; the sign of
  zero is not kept), beside the two infinities and NaN, which Python's JSON parser accepts.
  A dict is an association list in insertion order, looked up with \<open>map_of\<close>.
\<close>

datatype pyfloat = Finite rat | PosInf | NegInf | NaN

datatype pyval =
    PNone
  | PBool bool
  | PInt int
  | PFloat pyfloat
  | PStr string
  | PList "pyval list"
  | PDict "(string \<times> pyval) list"

text \<open>
  Every exception the model raises is a subclass of Python's \<open>Exception\<close>, so that an
  \<^verbatim>\<open>except Exception\<close> clause catches each of them. An exception carries its class and the
  text that \<^verbatim>\<open>str(e)\<close> gives. \<open>HTTPException\<close> is what Flask's \<^verbatim>\<open>get_json\<close> raises,
  \<open>RequestException\<close> what \<^verbatim>\<open>requests.get\<close> raises, \<open>PyMongoError\<close> what the database
  driver raises. A function that may raise returns \<open>exn + 'a\<close>, with \<open>Inl\<close> the exception.
\<close>

datatype exn_class =
    ValueError
  | TypeError
  | OverflowError
  | AttributeError
  | HTTPException
  | RequestException
  | PyMongoError

datatype exn = Exn (cls: exn_class) (str_exn: string)

definition bind_exn :: "exn + 'a \<Rightarrow> ('a \<Rightarrow> exn + 'b) \<Rightarrow> exn + 'b" where
  "bind_exn m f = (case m of Inl e \<Rightarrow> Inl e | Inr v \<Rightarrow> f v)"

fun type_name :: "pyval \<Rightarrow> string" where
  "type_name PNone = ''NoneType''"
| "type_name (PBool b) = ''bool''"
| "type_name (PInt n) = ''int''"
| "type_name (PFloat x) = ''float''"
| "type_name (PStr s) = ''str''"
| "type_name (PList xs) = ''list''"
| "type_name (PDict d) = ''dict''"

subsection \<open>Conversion to float\<close>

text \<open>
  \<^verbatim>\<open>float(n)\<close> of an int rounds to the nearest double, ties to even, and raises
  \<open>OverflowError\<close> when the rounded value is beyond the largest double. The magnitude
  \<open>m\<close> keeps its 53 leading bits; \<open>floorlog 2 m\<close> is its bit length.
\<close>

definition round_half_even :: "nat \<Rightarrow> nat" where
  "round_half_even m =
     (if m < 2 ^ 53 then m
      else let e = floorlog 2 m - 53;
               q = m div 2 ^ e;
               r = m mod 2 ^ e;
               h = 2 ^ (e - 1)
           in (if h < r \<or> (r = h \<and> q mod 2 = 1) then q + 1 else q) * 2 ^ e)"

definition int_to_float :: "int \<Rightarrow> exn + pyfloat" where
  "int_to_float n =
     (let m = round_half_even (nat \<bar>n\<bar>)
      in if 2 ^ 1024 \<le> m then Inl (Exn OverflowError ''int too large to convert to float'')
         else Inr (Finite (of_int (sgn n * int m))))"

text \<open>
  \<^verbatim>\<open>float(x)\<close>. The parser of \<^verbatim>\<open>float(s)\<close> for a string is Python's own and not part of
  the program: it is the parameter \<open>str_to_float\<close>, which gives the parsed double, or
  \<open>None\<close> where Python raises \<open>ValueError\<close>. The quoting of the string in that message
  is written for a string without quotes or escapes; the only caller of a failing
  conversion catches it, so the text is never observed.
\<close>

fun py_float :: "(string \<Rightarrow> pyfloat option) \<Rightarrow> pyval \<Rightarrow> exn + pyfloat" where
  "py_float str_to_float (PFloat x) = Inr x"
| "py_float str_to_float (PInt n) = int_to_float n"
| "py_float str_to_float (PBool b) = Inr (Finite (if b then 1 else 0))"
| "py_float str_to_float (PStr s) =
     (case str_to_float s of
        None \<Rightarrow> Inl (Exn ValueError (''could not convert string to float: '' @ [CHR 0x27] @ s @ [CHR 0x27]))
      | Some x \<Rightarrow> Inr x)"
| "py_float str_to_float v =
     Inl (Exn TypeError (''float() argument must be a string or a real number, not ''
                          @ [CHR 0x27] @ type_name v @ [CHR 0x27]))"

text \<open>Python's \<^verbatim>\<open><=\<close> on floats: false as soon as one side is NaN.\<close>

fun float_le :: "pyfloat \<Rightarrow> pyfloat \<Rightarrow> bool" where
  "float_le (Finite a) (Finite b) = (a \<le> b)"
| "float_le NaN y = False"
| "float_le x NaN = False"
| "float_le NegInf y = True"
| "float_le x PosInf = True"
| "float_le x y = False"

section \<open>The region validator\<close>

text \<open>
  \<^verbatim>\<open>
  def is_within_philippines(lat, lon):
      try:
          lat = float(lat)
          lon = float(lon)
          return (4.5 <= lat <= 21.5 and 116.0 <= lon <= 127.0)
      except (ValueError, TypeError):
          return False
  \<close>
  The handler catches \<open>ValueError\<close> and \<open>TypeError\<close> only; any other exception of the
  \<^verbatim>\<open>try\<close> block leaves the function.
\<close>

definition is_within_philippines ::
  "(string \<Rightarrow> pyfloat option) \<Rightarrow> pyval \<Rightarrow> pyval \<Rightarrow> exn + bool" where
  "is_within_philippines str_to_float lat lon =
     (case bind_exn (py_float str_to_float lat) (\<lambda>lat'.
           bind_exn (py_float str_to_float lon) (\<lambda>lon'.
           Inr (float_le (Finite (9 / 2)) lat' \<and> float_le lat' (Finite (43 / 2)) \<and>
                float_le (Finite 116) lon' \<and> float_le lon' (Finite 127)))) of
        Inl e \<Rightarrow> if cls e = ValueError \<or> cls e = TypeError then Inr False else Inl e
      | Inr b \<Rightarrow> Inr b)"

section \<open>The outside world and the server's state\<close>

subsection \<open>Dict and container operations\<close>

text \<open>
  \<^verbatim>\<open>x.get(key, default)\<close>: only a dict has the method; on any other value the attribute
  lookup raises \<open>AttributeError\<close>.
\<close>

fun py_get :: "pyval \<Rightarrow> string \<Rightarrow> pyval \<Rightarrow> exn + pyval" where
  "py_get (PDict d) key dflt =
     Inr (case map_of d key of None \<Rightarrow> dflt | Some v \<Rightarrow> v)"
| "py_get v key dflt =
     Inl (Exn AttributeError ([CHR 0x27] @ type_name v @ [CHR 0x27]
                              @ '' object has no attribute '' @ [CHR 0x27] @ ''get'' @ [CHR 0x27]))"

text \<open>
  \<^verbatim>\<open>key in x\<close> for a string \<open>key\<close>: a key of a dict, an element of a list, a substring
  of a string; any other value is not iterable and the test raises \<open>TypeError\<close>.
\<close>

fun py_contains :: "pyval \<Rightarrow> string \<Rightarrow> exn + bool" where
  "py_contains (PDict d) key = Inr (map_of d key \<noteq> None)"
| "py_contains (PList xs) key = Inr (List.member xs (PStr key))"
| "py_contains (PStr s) key = Inr (sublist key s)"
| "py_contains v key =
     Inl (Exn TypeError (''argument of type '' @ [CHR 0x27] @ type_name v @ [CHR 0x27]
                          @ '' is not iterable''))"

subsection \<open>Records of the program\<close>

text \<open>
  The answer of \<^verbatim>\<open>requests.get\<close>: its status code and what \<^verbatim>\<open>response.json()\<close> gives,
  the parsed body or the exception of the parser.
\<close>

record http_response =
  status_code :: int
  json :: "exn + pyval"

text \<open>
  A datetime is its number of microseconds since the epoch, in UTC. An ObjectId is its
  twelve bytes; \<^verbatim>\<open>str\<close> of it is their 24 lower-case hexadecimal digits.
\<close>

datatype datetime = Datetime (micros: int)

datatype object_id = ObjectId (bytes: "nat list")

definition hex_digit :: "nat \<Rightarrow> char" where
  "hex_digit n = ''0123456789abcdef'' ! (n mod 16)"

definition str_oid :: "object_id \<Rightarrow> string" where
  "str_oid i = concat (map (\<lambda>b. [hex_digit (b div 16), hex_digit b]) (bytes i))"

text \<open>
  \<^verbatim>\<open>location_doc\<close>, the dict literal that \<^verbatim>\<open>save_location\<close> builds, has four fixed keys;
  \<^verbatim>\<open>insert_one\<close> adds \<^verbatim>\<open>_id\<close> to it. The collection is written by this program alone, so
  a stored document is a \<open>location\<close>: the four fields and \<open>ident\<close>, the value under
  \<^verbatim>\<open>_id\<close>, which is the driver's ObjectId until \<^verbatim>\<open>get_locations\<close> replaces it by a
  string. The address stays a dynamic value: the geocoder returns dicts of two shapes.
\<close>

datatype id_value = Oid object_id | Str string

fun str_id :: "id_value \<Rightarrow> string" where
  "str_id (Oid i) = str_oid i"
| "str_id (Str s) = s"

record location_doc =
  latitude :: pyfloat
  longitude :: pyfloat
  address :: pyval
  timestamp :: datetime

record location = location_doc +
  ident :: id_value

definition with_id :: "location_doc \<Rightarrow> id_value \<Rightarrow> location" where
  "with_id d i =
     \<lparr>latitude = latitude d, longitude = longitude d, address = address d,
      timestamp = timestamp d, ident = i\<rparr>"

datatype db_handle = Database string

text \<open>
  \<open>env\<close> is what the program reads from outside and does not change: Python's string
  parser for floats, the process environment variable with the database URI, the outcome
  of connecting to a URI and pinging the server (\<open>None\<close> when both succeed), the
  geocoding service as \<^verbatim>\<open>requests.get\<close> sees it for the parameters \<open>lat\<close> and \<open>lon\<close>,
  the clock, and the driver's generator of ObjectIds (the n-th identifier it makes).
\<close>

record env =
  str_to_float :: "string \<Rightarrow> pyfloat option"
  mongodb_connection_string :: "string option"
  connect :: "string \<Rightarrow> exn option"
  requests_get :: "pyval \<Rightarrow> pyval \<Rightarrow> exn + http_response"
  utcnow :: datetime
  generate_oid :: "nat \<Rightarrow> object_id"

text \<open>
  \<open>world\<close> is what the program changes or depends on between requests: the module global
  \<^verbatim>\<open>database\<close>, the documents of the collection \<^verbatim>\<open>locations\<close> in insertion order, the
  state of the connection (\<open>Some e\<close>: the store is unavailable and every driver call raises
  \<open>e\<close>), the requests sent to the geocoding service so far, and how many ObjectIds the
  driver has made. Log lines are not modelled.
\<close>

record world =
  database :: "db_handle option"
  locations :: "location list"
  store_fault :: "exn option"
  geocoder_calls :: "(pyval \<times> pyval) list"
  oids_generated :: nat

section \<open>The geocoder client\<close>

text \<open>
  The \<^verbatim>\<open>try\<close> block of \<^verbatim>\<open>get_address_from_coordinates\<close>, after the request has been
  sent: \<open>r\<close> is what \<^verbatim>\<open>requests.get\<close> returned or raised. Both the \<^verbatim>\<open>if\<close> on the status
  and the \<^verbatim>\<open>if\<close> on \<^verbatim>\<open>display_name\<close> fall through to the same \<^verbatim>\<open>return\<close>.
\<close>

definition get_address_try :: "exn + http_response \<Rightarrow> exn + pyval" where
  "get_address_try r =
     bind_exn r (\<lambda>response.
       if status_code response = 200 then
         bind_exn (json response) (\<lambda>data.
         bind_exn (py_contains data ''display_name'') (\<lambda>has_name.
           if has_name then
             bind_exn (py_get data ''display_name'' (PStr ''Unknown Location'')) (\<lambda>full_address.
             bind_exn (py_get data ''address'' (PDict [])) (\<lambda>address_components.
             bind_exn (py_get address_components ''city'' (PStr [])) (\<lambda>city.
             bind_exn (py_get address_components ''province'' (PStr [])) (\<lambda>province.
             bind_exn (py_get address_components ''country'' (PStr [])) (\<lambda>country.
             bind_exn (py_get address_components ''postcode'' (PStr [])) (\<lambda>postcode.
               Inr (PDict [(''full_address'', full_address),
                           (''city'', city),
                           (''province'', province),
                           (''country'', country),
                           (''postcode'', postcode)])))))))
           else Inr (PDict [(''full_address'', PStr ''Location not found'')])))
       else Inr (PDict [(''full_address'', PStr ''Location not found'')]))"

text \<open>
  The function itself: it sends the request, which the world records, and its
  \<^verbatim>\<open>except Exception\<close> turns every exception of the block into the second fallback.
\<close>

definition get_address_from_coordinates ::
  "env \<Rightarrow> world \<Rightarrow> pyval \<Rightarrow> pyval \<Rightarrow> (exn + pyval) \<times> world" where
  "get_address_from_coordinates env w lat lon =
     (let w' = w\<lparr>geocoder_calls := geocoder_calls w @ [(lat, lon)]\<rparr>
      in case get_address_try (requests_get env lat lon) of
           Inl e \<Rightarrow> (Inr (PDict [(''full_address'', PStr ''Location lookup failed'')]), w')
         | Inr structured_address \<Rightarrow> (Inr structured_address, w'))"

section \<open>The location store\<close>

text \<open>
  \<^verbatim>\<open>get_mongodb_connection\<close>: \<open>None\<close> when the URI is unset or empty, and when creating
  the client or the \<^verbatim>\<open>ismaster\<close> command raises; otherwise the handle of the database
  \<^verbatim>\<open>location_tracker\<close>.
\<close>

definition get_mongodb_connection :: "env \<Rightarrow> db_handle option" where
  "get_mongodb_connection env =
     (case mongodb_connection_string env of
        None \<Rightarrow> None
      | Some MONGO_URI \<Rightarrow>
          if MONGO_URI = [] then None
          else (case connect env MONGO_URI of
                  Some e \<Rightarrow> None
                | None \<Rightarrow> Some (Database ''location_tracker'')))"

text \<open>
  The module's initialisation: \<^verbatim>\<open>sys.exit(1)\<close> when there is no connection (\<open>Inl\<close> is
  the exit code), otherwise the process serves requests with \<^verbatim>\<open>database\<close> set.
\<close>

definition startup :: "env \<Rightarrow> world \<Rightarrow> nat + world" where
  "startup env w =
     (case get_mongodb_connection env of
        None \<Rightarrow> Inl 1
      | Some db \<Rightarrow> Inr (w\<lparr>database := Some db\<rparr>))"

text \<open>
  \<^verbatim>\<open>locations_collection.insert_one(location_doc)\<close>: the driver gives the document a new
  ObjectId, then sends it; the call raises when the store is unavailable, otherwise the
  document is appended to the collection and the call returns the identifier. The
  collection holds the document as the program passed it: its BSON encoding, which keeps
  dates to the millisecond, is not modelled.
\<close>

definition insert_one :: "env \<Rightarrow> world \<Rightarrow> location_doc \<Rightarrow> (exn + object_id) \<times> world" where
  "insert_one env w d =
     (let inserted_id = generate_oid env (oids_generated w);
          w' = w\<lparr>oids_generated := Suc (oids_generated w)\<rparr>
      in case store_fault w of
           Some e \<Rightarrow> (Inl e, w')
         | None \<Rightarrow> (Inr inserted_id, w'\<lparr>locations := locations w @ [with_id d (Oid inserted_id)]\<rparr>))"

text \<open>
  \<^verbatim>\<open>locations_collection.find().sort('timestamp', -1).limit(50)\<close>: the documents by
  descending timestamp, the first fifty of them. The order of documents with equal
  timestamps is the database's choice; here it is insertion order.
\<close>

definition find_sort_limit :: "world \<Rightarrow> exn + location list" where
  "find_sort_limit w =
     (case store_fault w of
        Some e \<Rightarrow> Inl e
      | None \<Rightarrow> Inr (take 50 (sort_key (\<lambda>l. - micros (timestamp l)) (locations w))))"

section \<open>The HTTP handlers\<close>

text \<open>
  A request to \<^verbatim>\<open>/save_location\<close> is what \<^verbatim>\<open>request.get_json()\<close> gives for it: the
  parsed body, or the exception Flask raises for a body that is not JSON. A response is
  the pair of the JSON body and the status code, as the handler returns it.
\<close>

datatype request = Request (get_json: "exn + pyval")

type_synonym response = "pyval \<times> nat"

text \<open>
  The \<^verbatim>\<open>try\<close> block of \<^verbatim>\<open>save_location\<close>. Each step that may raise passes the exception
  on together with the world as it is at that point.
\<close>

definition save_location_try :: "env \<Rightarrow> world \<Rightarrow> request \<Rightarrow> (exn + response) \<times> world" where
  "save_location_try env w req =
     (if database w = None then
        (Inr (PDict [(''status'', PStr ''error''),
                     (''message'', PStr ''Database connection lost'')], 500), w)
      else
        case get_json req of Inl e \<Rightarrow> (Inl e, w) | Inr location_data \<Rightarrow>
        (case py_get location_data ''latitude'' PNone of Inl e \<Rightarrow> (Inl e, w) | Inr lat \<Rightarrow>
        (case py_get location_data ''longitude'' PNone of Inl e \<Rightarrow> (Inl e, w) | Inr lon \<Rightarrow>
        (case is_within_philippines (str_to_float env) lat lon of Inl e \<Rightarrow> (Inl e, w) | Inr ok \<Rightarrow>
           if \<not> ok then
             (Inr (PDict [(''status'', PStr ''error''),
                          (''message'', PStr ''Location outside Philippines'')], 400), w)
           else
             (case get_address_from_coordinates env w lat lon of
                (Inl e, w1) \<Rightarrow> (Inl e, w1)
              | (Inr address_info, w1) \<Rightarrow>
             (case py_float (str_to_float env) lat of Inl e \<Rightarrow> (Inl e, w1) | Inr flat \<Rightarrow>
             (case py_float (str_to_float env) lon of Inl e \<Rightarrow> (Inl e, w1) | Inr flon \<Rightarrow>
                let location_doc = \<lparr>latitude = flat, longitude = flon,
                                    address = address_info, timestamp = utcnow env\<rparr>
                in (case insert_one env w1 location_doc of
                      (Inl e, w2) \<Rightarrow> (Inl e, w2)
                    | (Inr inserted_id, w2) \<Rightarrow>
                        (Inr (PDict [(''status'', PStr ''success''),
                                     (''message'', PStr ''Location saved''),
                                     (''id'', PStr (str_oid inserted_id)),
                                     (''address'', address_info)], 200), w2)))))))))"

text \<open>
  \<^verbatim>\<open>save_location\<close>: the block, and the \<^verbatim>\<open>except Exception\<close> that answers 500 with the
  exception's text.
\<close>

definition save_location :: "env \<Rightarrow> world \<Rightarrow> request \<Rightarrow> (exn + response) \<times> world" where
  "save_location env w req =
     (case save_location_try env w req of
        (Inl e, w') \<Rightarrow>
          (Inr (PDict [(''status'', PStr ''error''), (''message'', PStr (str_exn e))], 500), w')
      | (Inr r, w') \<Rightarrow> (Inr r, w'))"

text \<open>
  \<^verbatim>\<open>get_locations\<close>: it reads the collection, replaces each \<^verbatim>\<open>_id\<close> by its string and
  answers with the list (status 200). It has no \<^verbatim>\<open>try\<close>: an exception of the driver
  leaves the handler.
\<close>

definition get_locations :: "world \<Rightarrow> exn + (location list \<times> nat)" where
  "get_locations w =
     bind_exn (find_sort_limit w) (\<lambda>found.
       Inr (map (\<lambda>location. location\<lparr>ident := Str (str_id (ident location))\<rparr>) found, 200))"

section \<open>Sample inputs\<close>

text \<open>
  Inputs on which the results below are run: an environment around a given behaviour of
  the geocoding service, with no string accepted as a float, a reachable database, a
  fixed clock and ObjectIds numbered from zero; and the world right after a successful
  start, with an empty collection.
\<close>

definition sample_env :: "(pyval \<Rightarrow> pyval \<Rightarrow> exn + http_response) \<Rightarrow> env" where
  "sample_env service =
     \<lparr>str_to_float = \<lambda>s. None,
      mongodb_connection_string = Some ''mongodb://db.example/'',
      connect = \<lambda>uri. None,
      requests_get = service,
      utcnow = Datetime 1700000000000000,
      generate_oid = \<lambda>n. ObjectId [0, 0, 0, 0, 0, 0, 0, 0, 0, 0, 0, n]\<rparr>"

definition sample_world :: world where
  "sample_world =
     \<lparr>database = Some (Database ''location_tracker''), locations = [], store_fault = None,
      geocoder_calls = [], oids_generated = 0\<rparr>"

section \<open>Facts about the conversion to float\<close>

lemma round_half_even_small: "m < 2 ^ 53 \<Longrightarrow> round_half_even m = m"
  by (simp add: round_half_even_def)

text \<open>Rounding never goes below a power of two that the magnitude has reached.\<close>

lemma round_half_even_ge_pow:
  assumes k: "53 \<le> k" and m: "2 ^ k \<le> m"
  shows "2 ^ k \<le> round_half_even m"
proof -
  define L where "L = floorlog 2 m"
  define e where "e = L - 53"
  define q where "q = m div 2 ^ e"
  have m53: "(2::nat) ^ 53 \<le> m"
    using power_increasing [OF k, of "2::nat"] m by simp
  have mpos: "0 < m"
    using m53 by (metis less_le_trans zero_less_numeral zero_less_power)
  have kL: "Suc k \<le> L"
    unfolding L_def using m by (rule floorlog_ge_SucI) simp
  have lo: "2 ^ (L - 1) \<le> m"
    unfolding L_def using floorlog_bounds [of m 2] mpos by simp
  have split: "L - 1 = 52 + e"
    using kL k by (simp add: e_def)
  have "(2::nat) ^ 52 * 2 ^ e \<le> m"
    using lo unfolding split power_add .
  then have q52: "2 ^ 52 \<le> q"
    unfolding q_def by (simp add: less_eq_div_iff_mult_less_eq)
  have "(2::nat) ^ k \<le> 2 ^ (52 + e)"
    using kL split by (intro power_increasing) auto
  also have "\<dots> \<le> q * 2 ^ e"
    using q52 by (simp add: power_add)
  finally have base: "2 ^ k \<le> q * 2 ^ e" .
  have "q * 2 ^ e \<le> (if 2 ^ (e - 1) < m mod 2 ^ e \<or> (m mod 2 ^ e = 2 ^ (e - 1) \<and> q mod 2 = 1)
                       then q + 1 else q) * 2 ^ e"
    by simp
  with base have "2 ^ k \<le> (if 2 ^ (e - 1) < m mod 2 ^ e \<or> (m mod 2 ^ e = 2 ^ (e - 1) \<and> q mod 2 = 1)
                            then q + 1 else q) * 2 ^ e"
    by (rule order_trans)
  moreover have "\<not> m < 2 ^ 53" using m53 by simp
  ultimately show ?thesis
    unfolding round_half_even_def Let_def L_def [symmetric] e_def [symmetric] q_def [symmetric]
    by (simp only: if_False)
qed

lemma int_to_float_overflow:
  assumes "2 ^ 1024 \<le> \<bar>n\<bar>"
  shows "int_to_float n = Inl (Exn OverflowError ''int too large to convert to float'')"
proof -
  have "int (2 ^ 1024) \<le> \<bar>n\<bar>"
    using assms by (simp only: of_nat_power of_nat_numeral)
  then have "(2::nat) ^ 1024 \<le> nat \<bar>n\<bar>"
    by (simp only: nat_le_iff [symmetric] le_nat_iff)
  then have "(2::nat) ^ 1024 \<le> round_half_even (nat \<bar>n\<bar>)"
    by (rule round_half_even_ge_pow [rotated]) simp
  then show ?thesis
    unfolding int_to_float_def Let_def by (simp only: if_True)
qed

lemma int_to_float_exact:
  assumes "\<bar>n\<bar> < 2 ^ 53"
  shows "int_to_float n = Inr (Finite (of_int n))"
proof -
  have lt: "nat \<bar>n\<bar> < 2 ^ 53"
    using assms by (simp add: nat_less_iff)
  then have r: "round_half_even (nat \<bar>n\<bar>) = nat \<bar>n\<bar>"
    by (rule round_half_even_small)
  have "(2::nat) ^ 53 \<le> 2 ^ 1024"
    by (rule power_increasing) simp_all
  with lt have "\<not> (2::nat) ^ 1024 \<le> nat \<bar>n\<bar>"
    by linarith
  moreover have "sgn n * int (nat \<bar>n\<bar>) = n"
    by (simp add: mult_sgn_abs)
  ultimately show ?thesis
    unfolding int_to_float_def Let_def r by (simp only: if_False)
qed

lemma py_float_raises:
  "py_float sf v = Inl e \<Longrightarrow> cls e = ValueError \<or> cls e = TypeError \<or> cls e = OverflowError"
  by (cases v) (auto simp: int_to_float_def Let_def split: option.splits if_splits)

section \<open>The region validator: results\<close>

text \<open>The only exception that leaves the validator is the \<open>OverflowError\<close> of \<^verbatim>\<open>float\<close>.\<close>

lemma is_within_philippines_raises:
  "is_within_philippines sf lat lon = Inl e \<Longrightarrow> cls e = OverflowError"
  by (auto simp: is_within_philippines_def bind_exn_def split: sum.splits if_splits
           dest: py_float_raises)

lemma is_within_philippines_not_convertible:
  assumes "py_float sf lat = Inl e \<or> (py_float sf lat = Inr a \<and> py_float sf lon = Inl e)"
    and "cls e \<noteq> OverflowError"
  shows "is_within_philippines sf lat lon = Inr False"
  using assms py_float_raises [of sf lat e] py_float_raises [of sf lon e]
  by (auto simp: is_within_philippines_def bind_exn_def)

text \<open>
  Claim C2. For every pair of values that \<^verbatim>\<open>float\<close> converts, to \<open>a\<close> and \<open>b\<close>, the
  validator returns true exactly when \<open>a\<close> is a number in \<open>[4.5, 21.5]\<close> and \<open>b\<close> is a
  number in \<open>[116.0, 127.0]\<close>; with either coordinate outside its range (or infinite, or
  NaN) it returns false.
\<close>

theorem region_validator_bounding_box:
  assumes "py_float sf lat = Inr a" and "py_float sf lon = Inr b"
  shows "is_within_philippines sf lat lon =
           Inr ((case a of Finite x \<Rightarrow> 9 / 2 \<le> x \<and> x \<le> 43 / 2 | _ \<Rightarrow> False) \<and>
                (case b of Finite y \<Rightarrow> 116 \<le> y \<and> y \<le> 127 | _ \<Rightarrow> False))"
  using assms by (cases a; cases b) (simp_all add: is_within_philippines_def bind_exn_def)

theorem region_validator_bounding_box_witness:
  "py_float (\<lambda>s. None) (PFloat (Finite (29 / 2))) = Inr (Finite (29 / 2)) \<and>
   py_float (\<lambda>s. None) (PInt 121) = Inr (Finite 121) \<and>
   is_within_philippines (\<lambda>s. None) (PFloat (Finite (29 / 2))) (PInt 121) = Inr True"
proof -
  have a: "py_float (\<lambda>s. None) (PFloat (Finite (29 / 2))) = Inr (Finite (29 / 2))"
    by simp
  have b: "py_float (\<lambda>s. None) (PInt 121) = Inr (Finite 121)"
    using int_to_float_exact [of 121] by simp
  show ?thesis
    using region_validator_bounding_box [OF a b] a b by simp
qed

text \<open>
  Claim C3. The validator is not total: for the integer \<open>2 ^ 1024\<close> as latitude,
  \<^verbatim>\<open>float\<close> raises \<open>OverflowError\<close>, which \<^verbatim>\<open>except (ValueError, TypeError)\<close> does not
  catch, and the exception leaves the function.
\<close>

theorem region_validator_overflow:
  "is_within_philippines (\<lambda>s. None) (PInt (2 ^ 1024)) (PInt 121) =
     Inl (Exn OverflowError ''int too large to convert to float'')"
proof -
  have "int_to_float (2 ^ 1024) = Inl (Exn OverflowError ''int too large to convert to float'')"
    by (rule int_to_float_overflow) simp
  then show ?thesis
    by (simp add: is_within_philippines_def bind_exn_def)
qed

section \<open>The geocoder client: results\<close>

lemma get_address_from_coordinates_fst:
  "fst (get_address_from_coordinates env w lat lon) =
     (case get_address_try (requests_get env lat lon) of
        Inl e \<Rightarrow> Inr (PDict [(''full_address'', PStr ''Location lookup failed'')])
      | Inr a \<Rightarrow> Inr a)"
  by (simp add: get_address_from_coordinates_def Let_def split: sum.splits)

lemma get_address_from_coordinates_snd:
  "snd (get_address_from_coordinates env w lat lon) =
     w\<lparr>geocoder_calls := geocoder_calls w @ [(lat, lon)]\<rparr>"
  by (simp add: get_address_from_coordinates_def Let_def split: sum.splits)

lemma get_address_try_raise: "get_address_try (Inl e) = Inl e"
  by (simp add: get_address_try_def bind_exn_def)

lemma get_address_try_status:
  "status_code resp \<noteq> 200 \<Longrightarrow>
   get_address_try (Inr resp) = Inr (PDict [(''full_address'', PStr ''Location not found'')])"
  by (simp add: get_address_try_def bind_exn_def)

lemma get_address_try_json_raise:
  "status_code resp = 200 \<Longrightarrow> json resp = Inl e \<Longrightarrow> get_address_try (Inr resp) = Inl e"
  by (simp add: get_address_try_def bind_exn_def)

lemma get_address_try_no_name:
  "status_code resp = 200 \<Longrightarrow> json resp = Inr (PDict d) \<Longrightarrow> map_of d ''display_name'' = None \<Longrightarrow>
   get_address_try (Inr resp) = Inr (PDict [(''full_address'', PStr ''Location not found'')])"
  by (simp add: get_address_try_def bind_exn_def)

lemma get_address_try_structured:
  "status_code resp = 200 \<Longrightarrow> json resp = Inr (PDict d) \<Longrightarrow>
   map_of d ''display_name'' = Some name \<Longrightarrow>
   py_get (PDict d) ''address'' (PDict []) = Inr (PDict comps) \<Longrightarrow>
   get_address_try (Inr resp) =
     Inr (PDict [(''full_address'', name),
                 (''city'', case map_of comps ''city'' of None \<Rightarrow> PStr [] | Some v \<Rightarrow> v),
                 (''province'', case map_of comps ''province'' of None \<Rightarrow> PStr [] | Some v \<Rightarrow> v),
                 (''country'', case map_of comps ''country'' of None \<Rightarrow> PStr [] | Some v \<Rightarrow> v),
                 (''postcode'', case map_of comps ''postcode'' of None \<Rightarrow> PStr [] | Some v \<Rightarrow> v)])"
  by (simp add: get_address_try_def bind_exn_def)

lemma get_address_try_cases:
  "(\<exists>e. get_address_try r = Inl e) \<or>
   get_address_try r = Inr (PDict [(''full_address'', PStr ''Location not found'')]) \<or>
   (\<exists>resp d name comps. r = Inr resp \<and> status_code resp = 200 \<and> json resp = Inr (PDict d) \<and>
      map_of d ''display_name'' = Some name \<and>
      py_get (PDict d) ''address'' (PDict []) = Inr (PDict comps))"
proof (cases r)
  case (Inl e)
  then show ?thesis by (simp add: get_address_try_raise)
next
  case (Inr resp)
  show ?thesis
  proof (cases "status_code resp = 200")
    case False
    then show ?thesis using Inr by (simp add: get_address_try_status)
  next
    case True
    show ?thesis
    proof (cases "json resp")
      case (Inl e)
      then show ?thesis using Inr True by (simp add: get_address_try_json_raise)
    next
      case data: (Inr data)
      show ?thesis
      proof (cases data)
        case (PDict d)
        show ?thesis
        proof (cases "map_of d ''display_name''")
          case None
          then show ?thesis using Inr True data PDict by (simp add: get_address_try_no_name)
        next
          case (Some name)
          obtain c where c: "py_get (PDict d) ''address'' (PDict []) = Inr c" by simp
          have n: "py_get (PDict d) ''display_name'' (PStr ''Unknown Location'') = Inr name"
            using Some by simp
          show ?thesis
          proof (cases c)
            case comps: (PDict comps)
            then show ?thesis using Inr True data PDict Some c by blast
          qed (use Inr True data PDict Some c n in
                \<open>simp_all add: get_address_try_def bind_exn_def del: py_get.simps(1)\<close>)
        qed
      qed (use Inr True data in \<open>simp_all add: get_address_try_def bind_exn_def\<close>)
    qed
  qed
qed


lemma get_address_try_test_false:
  "status_code resp = 200 \<Longrightarrow> json resp = Inr data \<Longrightarrow>
   py_contains data ''display_name'' = Inr False \<Longrightarrow>
   get_address_try (Inr resp) = Inr (PDict [(''full_address'', PStr ''Location not found'')])"
  by (simp add: get_address_try_def bind_exn_def)

lemma get_address_try_test_raises:
  "status_code resp = 200 \<Longrightarrow> json resp = Inr data \<Longrightarrow>
   py_contains data ''display_name'' = Inl e \<Longrightarrow>
   get_address_try (Inr resp) = Inl e"
  by (simp add: get_address_try_def bind_exn_def)

lemma get_address_try_address_not_object:
  assumes "status_code resp = 200" and "json resp = Inr (PDict d)"
    and "map_of d ''display_name'' = Some name"
    and "map_of d ''address'' = Some v" and "\<And>comps. v \<noteq> PDict comps"
  shows "\<exists>e. get_address_try (Inr resp) = Inl e"
proof (cases v)
  case (PDict comps)
  with assms(5) show ?thesis by blast
qed (use assms(1-4) in \<open>simp_all add: get_address_try_def bind_exn_def\<close>)

text \<open>
  Claim C4, as the code has it. The geocoder client never raises to its caller: for every
  input it returns a record. The record is \<^verbatim>\<open>{'full_address': 'Location not found'}\<close> on
  a status other than 200, and on a 200 answer for which the test
  \<^verbatim>\<open>'display_name' in data\<close> is false: a JSON object without that key, a list without
  that element, a string without that substring. It is
  \<^verbatim>\<open>{'full_address': 'Location lookup failed'}\<close> when \<^verbatim>\<open>requests.get\<close> raises, when the
  parser of the answer raises, and on a 200 answer for which the test itself raises: a
  body that is null, a number or a boolean.
\<close>

theorem geocoder_fallbacks:
  "(\<exists>a. fst (get_address_from_coordinates env w lat lon) = Inr a) \<and>
   (\<forall>resp. requests_get env lat lon = Inr resp \<and> status_code resp \<noteq> 200 \<longrightarrow>
      fst (get_address_from_coordinates env w lat lon) =
        Inr (PDict [(''full_address'', PStr ''Location not found'')])) \<and>
   (\<forall>resp data. requests_get env lat lon = Inr resp \<and> status_code resp = 200 \<and>
        json resp = Inr data \<and> py_contains data ''display_name'' = Inr False \<longrightarrow>
      fst (get_address_from_coordinates env w lat lon) =
        Inr (PDict [(''full_address'', PStr ''Location not found'')])) \<and>
   (\<forall>e. requests_get env lat lon = Inl e \<longrightarrow>
      fst (get_address_from_coordinates env w lat lon) =
        Inr (PDict [(''full_address'', PStr ''Location lookup failed'')])) \<and>
   (\<forall>resp e. requests_get env lat lon = Inr resp \<and> status_code resp = 200 \<and>
        json resp = Inl e \<longrightarrow>
      fst (get_address_from_coordinates env w lat lon) =
        Inr (PDict [(''full_address'', PStr ''Location lookup failed'')])) \<and>
   (\<forall>resp data e. requests_get env lat lon = Inr resp \<and> status_code resp = 200 \<and>
        json resp = Inr data \<and> py_contains data ''display_name'' = Inl e \<longrightarrow>
      fst (get_address_from_coordinates env w lat lon) =
        Inr (PDict [(''full_address'', PStr ''Location lookup failed'')]))"
proof (intro conjI allI impI)
  show "\<exists>a. fst (get_address_from_coordinates env w lat lon) = Inr a"
    by (simp add: get_address_from_coordinates_fst split: sum.splits)
next
  fix resp
  assume "requests_get env lat lon = Inr resp \<and> status_code resp \<noteq> 200"
  then show "fst (get_address_from_coordinates env w lat lon) =
        Inr (PDict [(''full_address'', PStr ''Location not found'')])"
    by (simp add: get_address_from_coordinates_fst get_address_try_status)
next
  fix resp data
  assume "requests_get env lat lon = Inr resp \<and> status_code resp = 200 \<and>
        json resp = Inr data \<and> py_contains data ''display_name'' = Inr False"
  then show "fst (get_address_from_coordinates env w lat lon) =
        Inr (PDict [(''full_address'', PStr ''Location not found'')])"
    by (simp add: get_address_from_coordinates_fst get_address_try_test_false)
next
  fix e
  assume "requests_get env lat lon = Inl e"
  then show "fst (get_address_from_coordinates env w lat lon) =
        Inr (PDict [(''full_address'', PStr ''Location lookup failed'')])"
    by (simp add: get_address_from_coordinates_fst get_address_try_raise)
next
  fix resp e
  assume "requests_get env lat lon = Inr resp \<and> status_code resp = 200 \<and> json resp = Inl e"
  then show "fst (get_address_from_coordinates env w lat lon) =
        Inr (PDict [(''full_address'', PStr ''Location lookup failed'')])"
    by (simp add: get_address_from_coordinates_fst get_address_try_json_raise)
next
  fix resp data e
  assume "requests_get env lat lon = Inr resp \<and> status_code resp = 200 \<and>
        json resp = Inr data \<and> py_contains data ''display_name'' = Inl e"
  then show "fst (get_address_from_coordinates env w lat lon) =
        Inr (PDict [(''full_address'', PStr ''Location lookup failed'')])"
    by (simp add: get_address_from_coordinates_fst get_address_try_test_raises)
qed

theorem geocoder_fallbacks_witness:
  "fst (get_address_from_coordinates
          (sample_env (\<lambda>lat lon. Inr \<lparr>status_code = 503, json = Inl (Exn ValueError ''Expecting value'')\<rparr>))
          sample_world (PFloat (Finite (29 / 2))) (PInt 121)) =
     Inr (PDict [(''full_address'', PStr ''Location not found'')]) \<and>
   fst (get_address_from_coordinates
          (sample_env (\<lambda>lat lon. Inr \<lparr>status_code = 200,
                                        json = Inr (PDict [(''error'', PStr ''Unable to geocode'')])\<rparr>))
          sample_world (PFloat (Finite (29 / 2))) (PInt 121)) =
     Inr (PDict [(''full_address'', PStr ''Location not found'')]) \<and>
   fst (get_address_from_coordinates
          (sample_env (\<lambda>lat lon. Inr \<lparr>status_code = 200, json = Inr (PList [PStr ''error''])\<rparr>))
          sample_world (PFloat (Finite (29 / 2))) (PInt 121)) =
     Inr (PDict [(''full_address'', PStr ''Location not found'')]) \<and>
   fst (get_address_from_coordinates
          (sample_env (\<lambda>lat lon. Inl (Exn RequestException ''Connection refused'')))
          sample_world (PFloat (Finite (29 / 2))) (PInt 121)) =
     Inr (PDict [(''full_address'', PStr ''Location lookup failed'')]) \<and>
   fst (get_address_from_coordinates
          (sample_env (\<lambda>lat lon. Inr \<lparr>status_code = 200, json = Inl (Exn ValueError ''Expecting value'')\<rparr>))
          sample_world (PFloat (Finite (29 / 2))) (PInt 121)) =
     Inr (PDict [(''full_address'', PStr ''Location lookup failed'')]) \<and>
   fst (get_address_from_coordinates
          (sample_env (\<lambda>lat lon. Inr \<lparr>status_code = 200, json = Inr (PInt 5)\<rparr>))
          sample_world (PFloat (Finite (29 / 2))) (PInt 121)) =
     Inr (PDict [(''full_address'', PStr ''Location lookup failed'')])"
  using
    geocoder_fallbacks [of
      "sample_env (\<lambda>lat lon. Inr \<lparr>status_code = 503, json = Inl (Exn ValueError ''Expecting value'')\<rparr>)"
      sample_world "PFloat (Finite (29 / 2))" "PInt 121"]
    geocoder_fallbacks [of
      "sample_env (\<lambda>lat lon. Inr \<lparr>status_code = 200,
                                     json = Inr (PDict [(''error'', PStr ''Unable to geocode'')])\<rparr>)"
      sample_world "PFloat (Finite (29 / 2))" "PInt 121"]
    geocoder_fallbacks [of
      "sample_env (\<lambda>lat lon. Inr \<lparr>status_code = 200, json = Inr (PList [PStr ''error''])\<rparr>)"
      sample_world "PFloat (Finite (29 / 2))" "PInt 121"]
    geocoder_fallbacks [of
      "sample_env (\<lambda>lat lon. Inl (Exn RequestException ''Connection refused''))"
      sample_world "PFloat (Finite (29 / 2))" "PInt 121"]
    geocoder_fallbacks [of
      "sample_env (\<lambda>lat lon. Inr \<lparr>status_code = 200, json = Inl (Exn ValueError ''Expecting value'')\<rparr>)"
      sample_world "PFloat (Finite (29 / 2))" "PInt 121"]
    geocoder_fallbacks [of
      "sample_env (\<lambda>lat lon. Inr \<lparr>status_code = 200, json = Inr (PInt 5)\<rparr>)"
      sample_world "PFloat (Finite (29 / 2))" "PInt 121"]
  by (simp add: sample_env_def)

text \<open>
  Claim C4 as stated fails on a 200 answer whose body is JSON \<^verbatim>\<open>null\<close>: the answer has
  no \<^verbatim>\<open>display_name\<close>, yet \<^verbatim>\<open>'display_name' in None\<close> raises \<open>TypeError\<close>, the
  \<^verbatim>\<open>except Exception\<close> catches it, and the record is "Location lookup failed", not
  "Location not found".
\<close>

theorem geocoder_null_body_counterexample:
  "fst (get_address_from_coordinates
          (sample_env (\<lambda>lat lon. Inr \<lparr>status_code = 200, json = Inr PNone\<rparr>))
          sample_world (PFloat (Finite (29 / 2))) (PInt 121)) =
     Inr (PDict [(''full_address'', PStr ''Location lookup failed'')]) \<and>
   fst (get_address_from_coordinates
          (sample_env (\<lambda>lat lon. Inr \<lparr>status_code = 200, json = Inr PNone\<rparr>))
          sample_world (PFloat (Finite (29 / 2))) (PInt 121)) \<noteq>
     Inr (PDict [(''full_address'', PStr ''Location not found'')])"
  by (simp add: sample_env_def get_address_from_coordinates_def get_address_try_def
        bind_exn_def Let_def)

text \<open>
  Claim C9, as the code has it. The records the geocoder produces: on a 200 answer that is
  a JSON object with \<^verbatim>\<open>display_name\<close>, whose \<^verbatim>\<open>address\<close> is absent or an object, the
  record has the five fields \<^verbatim>\<open>full_address\<close>, \<^verbatim>\<open>city\<close>, \<^verbatim>\<open>province\<close>, \<^verbatim>\<open>country\<close>,
  \<^verbatim>\<open>postcode\<close>, the last four taken from the address components and the empty string
  where absent. In every other case the record has \<^verbatim>\<open>full_address\<close> alone, one of the
  two fixed sentinels; in particular, when \<^verbatim>\<open>address\<close> is present and not an object
  (null, say) it is "Location lookup failed".
\<close>

theorem geocoder_address_record:
  "(\<forall>resp d name comps.
      requests_get env lat lon = Inr resp \<and> status_code resp = 200 \<and>
      json resp = Inr (PDict d) \<and> map_of d ''display_name'' = Some name \<and>
      py_get (PDict d) ''address'' (PDict []) = Inr (PDict comps) \<longrightarrow>
      fst (get_address_from_coordinates env w lat lon) =
        Inr (PDict [(''full_address'', name),
                    (''city'', case map_of comps ''city'' of None \<Rightarrow> PStr [] | Some v \<Rightarrow> v),
                    (''province'', case map_of comps ''province'' of None \<Rightarrow> PStr [] | Some v \<Rightarrow> v),
                    (''country'', case map_of comps ''country'' of None \<Rightarrow> PStr [] | Some v \<Rightarrow> v),
                    (''postcode'', case map_of comps ''postcode'' of None \<Rightarrow> PStr [] | Some v \<Rightarrow> v)])) \<and>
   ((\<nexists>resp d name comps.
      requests_get env lat lon = Inr resp \<and> status_code resp = 200 \<and>
      json resp = Inr (PDict d) \<and> map_of d ''display_name'' = Some name \<and>
      py_get (PDict d) ''address'' (PDict []) = Inr (PDict comps)) \<longrightarrow>
      fst (get_address_from_coordinates env w lat lon) =
        Inr (PDict [(''full_address'', PStr ''Location not found'')]) \<or>
      fst (get_address_from_coordinates env w lat lon) =
        Inr (PDict [(''full_address'', PStr ''Location lookup failed'')])) \<and>
   (\<forall>resp d name v.
      requests_get env lat lon = Inr resp \<and> status_code resp = 200 \<and>
      json resp = Inr (PDict d) \<and> map_of d ''display_name'' = Some name \<and>
      map_of d ''address'' = Some v \<and> (\<nexists>comps. v = PDict comps) \<longrightarrow>
      fst (get_address_from_coordinates env w lat lon) =
        Inr (PDict [(''full_address'', PStr ''Location lookup failed'')]))"
proof (intro conjI allI impI)
  fix resp d name comps
  assume "requests_get env lat lon = Inr resp \<and> status_code resp = 200 \<and>
      json resp = Inr (PDict d) \<and> map_of d ''display_name'' = Some name \<and>
      py_get (PDict d) ''address'' (PDict []) = Inr (PDict comps)"
  then show "fst (get_address_from_coordinates env w lat lon) =
        Inr (PDict [(''full_address'', name),
                    (''city'', case map_of comps ''city'' of None \<Rightarrow> PStr [] | Some v \<Rightarrow> v),
                    (''province'', case map_of comps ''province'' of None \<Rightarrow> PStr [] | Some v \<Rightarrow> v),
                    (''country'', case map_of comps ''country'' of None \<Rightarrow> PStr [] | Some v \<Rightarrow> v),
                    (''postcode'', case map_of comps ''postcode'' of None \<Rightarrow> PStr [] | Some v \<Rightarrow> v)])"
    using get_address_try_structured [of resp d name comps]
    by (simp add: get_address_from_coordinates_fst)
next
  assume "\<nexists>resp d name comps.
      requests_get env lat lon = Inr resp \<and> status_code resp = 200 \<and>
      json resp = Inr (PDict d) \<and> map_of d ''display_name'' = Some name \<and>
      py_get (PDict d) ''address'' (PDict []) = Inr (PDict comps)"
  with get_address_try_cases [of "requests_get env lat lon"]
  have "(\<exists>e. get_address_try (requests_get env lat lon) = Inl e) \<or>
        get_address_try (requests_get env lat lon) =
          Inr (PDict [(''full_address'', PStr ''Location not found'')])"
    by blast
  then show "fst (get_address_from_coordinates env w lat lon) =
        Inr (PDict [(''full_address'', PStr ''Location not found'')]) \<or>
      fst (get_address_from_coordinates env w lat lon) =
        Inr (PDict [(''full_address'', PStr ''Location lookup failed'')])"
    by (auto simp: get_address_from_coordinates_fst)
next
  fix resp d name v
  assume a: "requests_get env lat lon = Inr resp \<and> status_code resp = 200 \<and>
      json resp = Inr (PDict d) \<and> map_of d ''display_name'' = Some name \<and>
      map_of d ''address'' = Some v \<and> (\<nexists>comps. v = PDict comps)"
  then have "\<exists>e. get_address_try (Inr resp) = Inl e"
    by (intro get_address_try_address_not_object [of resp d name v]) auto
  then show "fst (get_address_from_coordinates env w lat lon) =
        Inr (PDict [(''full_address'', PStr ''Location lookup failed'')])"
    using a by (auto simp: get_address_from_coordinates_fst)
qed

theorem geocoder_address_record_witness:
  "fst (get_address_from_coordinates
          (sample_env (\<lambda>lat lon. Inr \<lparr>status_code = 200,
             json = Inr (PDict [(''display_name'', PStr ''Manila, Philippines''),
                                (''address'', PDict [(''city'', PStr ''Manila''),
                                                     (''country'', PStr ''Philippines'')])])\<rparr>))
          sample_world (PFloat (Finite (29 / 2))) (PInt 121)) =
     Inr (PDict [(''full_address'', PStr ''Manila, Philippines''),
                 (''city'', PStr ''Manila''),
                 (''province'', PStr []),
                 (''country'', PStr ''Philippines''),
                 (''postcode'', PStr [])]) \<and>
   fst (get_address_from_coordinates
          (sample_env (\<lambda>lat lon. Inl (Exn RequestException ''Connection refused'')))
          sample_world (PFloat (Finite (29 / 2))) (PInt 121)) =
     Inr (PDict [(''full_address'', PStr ''Location lookup failed'')]) \<and>
   fst (get_address_from_coordinates
          (sample_env (\<lambda>lat lon. Inr \<lparr>status_code = 200,
             json = Inr (PDict [(''display_name'', PStr ''Manila, Philippines''),
                                (''address'', PList [])])\<rparr>))
          sample_world (PFloat (Finite (29 / 2))) (PInt 121)) =
     Inr (PDict [(''full_address'', PStr ''Location lookup failed'')])"
  using
    geocoder_address_record [of
      "sample_env (\<lambda>lat lon. Inr \<lparr>status_code = 200,
         json = Inr (PDict [(''display_name'', PStr ''Manila, Philippines''),
                            (''address'', PDict [(''city'', PStr ''Manila''),
                                                 (''country'', PStr ''Philippines'')])])\<rparr>)"
      "PFloat (Finite (29 / 2))" "PInt 121" sample_world]
    geocoder_address_record [of
      "sample_env (\<lambda>lat lon. Inl (Exn RequestException ''Connection refused''))"
      "PFloat (Finite (29 / 2))" "PInt 121" sample_world]
    geocoder_address_record [of
      "sample_env (\<lambda>lat lon. Inr \<lparr>status_code = 200,
         json = Inr (PDict [(''display_name'', PStr ''Manila, Philippines''),
                            (''address'', PList [])])\<rparr>)"
      "PFloat (Finite (29 / 2))" "PInt 121" sample_world]
  by (simp add: sample_env_def get_address_from_coordinates_fst get_address_try_raise)

text \<open>
  Claim C9 as stated fails on a 200 answer with \<^verbatim>\<open>display_name\<close> whose \<^verbatim>\<open>address\<close> is
  JSON \<^verbatim>\<open>null\<close>: \<^verbatim>\<open>data.get('address', {})\<close> gives \<open>None\<close>, \<^verbatim>\<open>None.get\<close> raises
  \<open>AttributeError\<close>, and the record is the fallback, not the five fields with empty
  defaults.
\<close>

theorem geocoder_null_address_counterexample:
  "fst (get_address_from_coordinates
          (sample_env (\<lambda>lat lon. Inr \<lparr>status_code = 200,
             json = Inr (PDict [(''display_name'', PStr ''Manila, Philippines''),
                                (''address'', PNone)])\<rparr>))
          sample_world (PFloat (Finite (29 / 2))) (PInt 121)) =
     Inr (PDict [(''full_address'', PStr ''Location lookup failed'')]) \<and>
   fst (get_address_from_coordinates
          (sample_env (\<lambda>lat lon. Inr \<lparr>status_code = 200,
             json = Inr (PDict [(''display_name'', PStr ''Manila, Philippines''),
                                (''address'', PNone)])\<rparr>))
          sample_world (PFloat (Finite (29 / 2))) (PInt 121)) \<noteq>
     Inr (PDict [(''full_address'', PStr ''Manila, Philippines''),
                 (''city'', PStr []),
                 (''province'', PStr []),
                 (''country'', PStr []),
                 (''postcode'', PStr [])])"
  by (simp add: sample_env_def get_address_from_coordinates_def get_address_try_def
        bind_exn_def Let_def)

section \<open>Saving a location: results\<close>

lemma is_within_philippines_True_convertible:
  assumes "is_within_philippines sf lat lon = Inr True"
  obtains a b where "py_float sf lat = Inr a" and "py_float sf lon = Inr b"
  using assms
  by (auto simp: is_within_philippines_def bind_exn_def split: sum.splits if_splits)

lemma startup_database:
  "startup env w0 = Inr w \<Longrightarrow> database w = Some (Database ''location_tracker'')"
  by (auto simp: startup_def get_mongodb_connection_def split: option.splits if_splits)

lemma save_location_no_handle:
  "database w = None \<Longrightarrow>
   save_location env w req =
     (Inr (PDict [(''status'', PStr ''error''),
                  (''message'', PStr ''Database connection lost'')], 500), w)"
  by (simp add: save_location_def save_location_try_def)

lemma save_location_validator_raises:
  assumes "database w = Some h" and "get_json req = Inr location_data"
    and "py_get location_data ''latitude'' PNone = Inr lat"
    and "py_get location_data ''longitude'' PNone = Inr lon"
    and "is_within_philippines (str_to_float env) lat lon = Inl e"
  shows "save_location env w req =
     (Inr (PDict [(''status'', PStr ''error''), (''message'', PStr (str_exn e))], 500), w)"
  using assms by (simp add: save_location_def save_location_try_def)

lemma save_location_accepted:
  assumes "database w = Some h" and "get_json req = Inr location_data"
    and "py_get location_data ''latitude'' PNone = Inr lat"
    and "py_get location_data ''longitude'' PNone = Inr lon"
    and "is_within_philippines (str_to_float env) lat lon = Inr True"
    and "py_float (str_to_float env) lat = Inr flat"
    and "py_float (str_to_float env) lon = Inr flon"
    and "fst (get_address_from_coordinates env w lat lon) = Inr address_info"
  shows "save_location env w req =
     (case store_fault w of
        Some e \<Rightarrow>
          (Inr (PDict [(''status'', PStr ''error''), (''message'', PStr (str_exn e))], 500),
           w\<lparr>geocoder_calls := geocoder_calls w @ [(lat, lon)],
             oids_generated := Suc (oids_generated w)\<rparr>)
      | None \<Rightarrow>
          (Inr (PDict [(''status'', PStr ''success''),
                       (''message'', PStr ''Location saved''),
                       (''id'', PStr (str_oid (generate_oid env (oids_generated w)))),
                       (''address'', address_info)], 200),
           w\<lparr>geocoder_calls := geocoder_calls w @ [(lat, lon)],
             oids_generated := Suc (oids_generated w),
             locations := locations w @
               [\<lparr>latitude = flat, longitude = flon, address = address_info,
                 timestamp = utcnow env,
                 ident = Oid (generate_oid env (oids_generated w))\<rparr>]\<rparr>))"
proof -
  have g: "get_address_from_coordinates env w lat lon =
             (Inr address_info, w\<lparr>geocoder_calls := geocoder_calls w @ [(lat, lon)]\<rparr>)"
    using assms(8) by (auto simp: get_address_from_coordinates_def Let_def split: sum.splits)
  show ?thesis
    using assms(1-7)
    by (simp add: save_location_def save_location_try_def g insert_one_def Let_def with_id_def
             split: option.splits)
qed


text \<open>
  Claim C1. A request whose body yields coordinates that the validator accepts, with the
  store available: the handler converts both coordinates with \<^verbatim>\<open>float\<close>, takes the
  geocoder's address, inserts exactly one document
  \<^verbatim>\<open>{latitude, longitude, address, timestamp}\<close> with the current UTC time, and answers 200
  with \<^verbatim>\<open>status\<close> success, \<^verbatim>\<open>message\<close> "Location saved", the new identifier as a string
  and the same address. Nothing else of the world changes but the record of the geocoder
  request and the count of identifiers.
\<close>

theorem save_location_success:
  assumes "database w = Some h" and "get_json req = Inr location_data"
    and "py_get location_data ''latitude'' PNone = Inr lat"
    and "py_get location_data ''longitude'' PNone = Inr lon"
    and "is_within_philippines (str_to_float env) lat lon = Inr True"
    and "store_fault w = None"
  shows "\<exists>flat flon address_info.
     py_float (str_to_float env) lat = Inr flat \<and>
     py_float (str_to_float env) lon = Inr flon \<and>
     fst (get_address_from_coordinates env w lat lon) = Inr address_info \<and>
     save_location env w req =
       (Inr (PDict [(''status'', PStr ''success''),
                    (''message'', PStr ''Location saved''),
                    (''id'', PStr (str_oid (generate_oid env (oids_generated w)))),
                    (''address'', address_info)], 200),
        w\<lparr>geocoder_calls := geocoder_calls w @ [(lat, lon)],
          oids_generated := Suc (oids_generated w),
          locations := locations w @
            [\<lparr>latitude = flat, longitude = flon, address = address_info,
              timestamp = utcnow env,
              ident = Oid (generate_oid env (oids_generated w))\<rparr>]\<rparr>)"
proof -
  obtain flat flon where f: "py_float (str_to_float env) lat = Inr flat"
      "py_float (str_to_float env) lon = Inr flon"
    using assms(5) by (rule is_within_philippines_True_convertible)
  obtain address_info where a: "fst (get_address_from_coordinates env w lat lon) = Inr address_info"
    by (cases "get_address_try (requests_get env lat lon)")
       (auto simp: get_address_from_coordinates_fst)
  show ?thesis
    using save_location_accepted [OF assms(1-5) f a] f a assms(6) by auto
qed

theorem save_location_success_witness:
  "save_location
     (sample_env (\<lambda>lat lon. Inr \<lparr>status_code = 200,
        json = Inr (PDict [(''display_name'', PStr ''Manila, Philippines''),
                           (''address'', PDict [(''city'', PStr ''Manila'')])])\<rparr>))
     sample_world
     (Request (Inr (PDict [(''latitude'', PFloat (Finite (29 / 2))),
                           (''longitude'', PFloat (Finite 121))]))) =
     (Inr (PDict [(''status'', PStr ''success''),
                  (''message'', PStr ''Location saved''),
                  (''id'', PStr ''000000000000000000000000''),
                  (''address'', PDict [(''full_address'', PStr ''Manila, Philippines''),
                                       (''city'', PStr ''Manila''),
                                       (''province'', PStr []),
                                       (''country'', PStr []),
                                       (''postcode'', PStr [])])], 200),
      sample_world
        \<lparr>geocoder_calls := [(PFloat (Finite (29 / 2)), PFloat (Finite 121))],
         oids_generated := 1,
         locations :=
           [\<lparr>latitude = Finite (29 / 2), longitude = Finite 121,
             address = PDict [(''full_address'', PStr ''Manila, Philippines''),
                              (''city'', PStr ''Manila''),
                              (''province'', PStr []),
                              (''country'', PStr []),
                              (''postcode'', PStr [])],
             timestamp = Datetime 1700000000000000,
             ident = Oid (ObjectId [0, 0, 0, 0, 0, 0, 0, 0, 0, 0, 0, 0])\<rparr>]\<rparr>)"
proof -
  let ?env = "sample_env (\<lambda>lat lon. Inr \<lparr>status_code = 200,
        json = Inr (PDict [(''display_name'', PStr ''Manila, Philippines''),
                           (''address'', PDict [(''city'', PStr ''Manila'')])])\<rparr>)"
  let ?req = "Request (Inr (PDict [(''latitude'', PFloat (Finite (29 / 2))),
                                   (''longitude'', PFloat (Finite 121))]))"
  have 1: "database sample_world = Some (Database ''location_tracker'')"
    by (simp add: sample_world_def)
  have 2: "get_json ?req = Inr (PDict [(''latitude'', PFloat (Finite (29 / 2))),
                                       (''longitude'', PFloat (Finite 121))])"
    by simp
  have 3: "py_get (PDict [(''latitude'', PFloat (Finite (29 / 2))),
                          (''longitude'', PFloat (Finite 121))]) ''latitude'' PNone =
             Inr (PFloat (Finite (29 / 2)))"
    by simp
  have 4: "py_get (PDict [(''latitude'', PFloat (Finite (29 / 2))),
                          (''longitude'', PFloat (Finite 121))]) ''longitude'' PNone =
             Inr (PFloat (Finite 121))"
    by simp
  have 5: "is_within_philippines (str_to_float ?env) (PFloat (Finite (29 / 2)))
             (PFloat (Finite 121)) = Inr True"
    by (simp add: is_within_philippines_def bind_exn_def)
  have 6: "store_fault sample_world = None"
    by (simp add: sample_world_def)
  show ?thesis
    using save_location_success [OF 1 2 3 4 5 6]
    by (auto simp: sample_env_def sample_world_def get_address_from_coordinates_def
          get_address_try_def bind_exn_def Let_def str_oid_def hex_digit_def)
qed

text \<open>
  Claim C7. A request whose coordinates the validator rejects is answered 400 with
  \<^verbatim>\<open>status\<close> error and \<^verbatim>\<open>message\<close> "Location outside Philippines"; the world is left as
  it was, so no request went to the geocoder and no document was stored.
\<close>

theorem save_location_outside_region:
  assumes "database w = Some h" and "get_json req = Inr location_data"
    and "py_get location_data ''latitude'' PNone = Inr lat"
    and "py_get location_data ''longitude'' PNone = Inr lon"
    and "is_within_philippines (str_to_float env) lat lon = Inr False"
  shows "save_location env w req =
     (Inr (PDict [(''status'', PStr ''error''),
                  (''message'', PStr ''Location outside Philippines'')], 400), w)"
  using assms by (simp add: save_location_def save_location_try_def)

theorem save_location_outside_region_witness:
  "save_location
     (sample_env (\<lambda>lat lon. Inl (Exn RequestException ''Connection refused'')))
     sample_world
     (Request (Inr (PDict [(''latitude'', PFloat (Finite 40)),
                           (''longitude'', PFloat (Finite (- 74)))]))) =
     (Inr (PDict [(''status'', PStr ''error''),
                  (''message'', PStr ''Location outside Philippines'')], 400), sample_world)"
proof -
  let ?env = "sample_env (\<lambda>lat lon. Inl (Exn RequestException ''Connection refused''))"
  let ?body = "PDict [(''latitude'', PFloat (Finite 40)), (''longitude'', PFloat (Finite (- 74)))]"
  have 1: "database sample_world = Some (Database ''location_tracker'')"
    by (simp add: sample_world_def)
  have 2: "get_json (Request (Inr ?body)) = Inr ?body"
    by simp
  have 3: "py_get ?body ''latitude'' PNone = Inr (PFloat (Finite 40))"
    by simp
  have 4: "py_get ?body ''longitude'' PNone = Inr (PFloat (Finite (- 74)))"
    by simp
  have 5: "is_within_philippines (str_to_float ?env) (PFloat (Finite 40))
             (PFloat (Finite (- 74))) = Inr False"
    by (simp add: is_within_philippines_def bind_exn_def)
  show ?thesis
    using save_location_outside_region [OF 1 2 3 4 5] .
qed




text \<open>
  The module global \<^verbatim>\<open>database\<close> is set once: a successful start leaves a handle in it,
  and no request changes it. So the first test of \<^verbatim>\<open>save_location\<close> never succeeds in a
  running server, and a store that became unavailable shows only when \<^verbatim>\<open>insert_one\<close>
  raises.
\<close>

lemma save_location_database:
  "database (snd (save_location env w req)) = database w"
  by (auto simp: save_location_def save_location_try_def get_address_from_coordinates_def
        insert_one_def Let_def split: sum.splits prod.splits option.splits if_splits)

lemma save_location_store_fault:
  assumes "database w = Some h" and "get_json req = Inr location_data"
    and "py_get location_data ''latitude'' PNone = Inr lat"
    and "py_get location_data ''longitude'' PNone = Inr lon"
    and "is_within_philippines (str_to_float env) lat lon = Inr True"
    and "store_fault w = Some e"
  shows "fst (save_location env w req) =
     Inr (PDict [(''status'', PStr ''error''), (''message'', PStr (str_exn e))], 500)"
proof -
  obtain flat flon where f: "py_float (str_to_float env) lat = Inr flat"
      "py_float (str_to_float env) lon = Inr flon"
    using assms(5) by (rule is_within_philippines_True_convertible)
  obtain address_info where a: "fst (get_address_from_coordinates env w lat lon) = Inr address_info"
    by (cases "get_address_try (requests_get env lat lon)")
       (auto simp: get_address_from_coordinates_fst)
  show ?thesis
    using save_location_accepted [OF assms(1-5) f a] assms(6) by simp
qed

text \<open>
  Claim C5. After a successful start, with the store unavailable at request time, the
  answer is not 500 "Database connection lost": a request outside the region is answered
  400, and a request inside the region is answered 500 with the text of the driver's
  exception.
\<close>

theorem save_location_store_unavailable:
  "startup (sample_env (\<lambda>lat lon. Inl (Exn RequestException ''Connection refused'')))
     (sample_world\<lparr>database := None\<rparr>) = Inr sample_world \<and>
   fst (save_location
     (sample_env (\<lambda>lat lon. Inl (Exn RequestException ''Connection refused'')))
     (sample_world\<lparr>store_fault := Some (Exn PyMongoError ''No servers available'')\<rparr>)
     (Request (Inr (PDict [(''latitude'', PFloat (Finite 40)),
                           (''longitude'', PFloat (Finite (- 74)))])))) =
     Inr (PDict [(''status'', PStr ''error''),
                 (''message'', PStr ''Location outside Philippines'')], 400) \<and>
   fst (save_location
     (sample_env (\<lambda>lat lon. Inl (Exn RequestException ''Connection refused'')))
     (sample_world\<lparr>store_fault := Some (Exn PyMongoError ''No servers available'')\<rparr>)
     (Request (Inr (PDict [(''latitude'', PFloat (Finite (29 / 2))),
                           (''longitude'', PFloat (Finite 121))])))) =
     Inr (PDict [(''status'', PStr ''error''),
                 (''message'', PStr ''No servers available'')], 500)"
  by (simp add: startup_def get_mongodb_connection_def sample_env_def sample_world_def
        save_location_def save_location_try_def is_within_philippines_def bind_exn_def
        get_address_from_coordinates_def get_address_try_def insert_one_def Let_def)

text \<open>
  A body without \<^verbatim>\<open>latitude\<close>, or with null for it, is answered like a coordinate outside
  the region. So is a body without \<^verbatim>\<open>longitude\<close>, provided \<^verbatim>\<open>float\<close> of the latitude,
  which is evaluated first, does not overflow.
\<close>

lemma save_location_missing_latitude:
  assumes "database w = Some h" and "get_json req = Inr (PDict d)"
    and "map_of d ''latitude'' = None \<or> map_of d ''latitude'' = Some PNone"
  shows "save_location env w req =
     (Inr (PDict [(''status'', PStr ''error''),
                  (''message'', PStr ''Location outside Philippines'')], 400), w)"
proof -
  have "py_get (PDict d) ''latitude'' PNone = Inr PNone"
    using assms(3) by auto
  moreover have "is_within_philippines (str_to_float env) PNone
      (case map_of d ''longitude'' of None \<Rightarrow> PNone | Some v \<Rightarrow> v) = Inr False"
    by (simp add: is_within_philippines_def bind_exn_def)
  ultimately show ?thesis
    using assms(1,2) by (simp add: save_location_def save_location_try_def)
qed

lemma save_location_missing_longitude:
  assumes "database w = Some h" and "get_json req = Inr (PDict d)"
    and "py_get (PDict d) ''latitude'' PNone = Inr lat"
    and "map_of d ''longitude'' = None \<or> map_of d ''longitude'' = Some PNone"
    and "\<And>e. py_float (str_to_float env) lat = Inl e \<Longrightarrow> cls e \<noteq> OverflowError"
  shows "save_location env w req =
     (Inr (PDict [(''status'', PStr ''error''),
                  (''message'', PStr ''Location outside Philippines'')], 400), w)"
proof -
  have lon: "py_get (PDict d) ''longitude'' PNone = Inr PNone"
    using assms(4) by auto
  have "is_within_philippines (str_to_float env) lat PNone = Inr False"
    using assms(5) py_float_raises [of "str_to_float env" lat]
    by (auto simp: is_within_philippines_def bind_exn_def split: sum.splits)
  then show ?thesis
    using assms(1,2,3) lon by (simp add: save_location_def save_location_try_def)
qed

text \<open>
  Claim C10. A body that omits \<^verbatim>\<open>longitude\<close> is not always answered 400: with the integer
  \<open>2 ^ 1024\<close> as latitude the validator raises \<open>OverflowError\<close> before it looks at the
  longitude, and the answer is 500 with the exception's text.
\<close>

theorem save_location_missing_longitude_overflow:
  "save_location
     (sample_env (\<lambda>lat lon. Inl (Exn RequestException ''Connection refused'')))
     sample_world
     (Request (Inr (PDict [(''latitude'', PInt (2 ^ 1024))]))) =
     (Inr (PDict [(''status'', PStr ''error''),
                  (''message'', PStr ''int too large to convert to float'')], 500),
      sample_world)"
proof -
  let ?env = "sample_env (\<lambda>lat lon. Inl (Exn RequestException ''Connection refused''))"
  let ?body = "PDict [(''latitude'', PInt (2 ^ 1024))]"
  have 1: "database sample_world = Some (Database ''location_tracker'')"
    by (simp add: sample_world_def)
  have 2: "get_json (Request (Inr ?body)) = Inr ?body"
    by simp
  have 3: "py_get ?body ''latitude'' PNone = Inr (PInt (2 ^ 1024))"
    by simp
  have 4: "py_get ?body ''longitude'' PNone = Inr PNone"
    by simp
  have "int_to_float (2 ^ 1024) = Inl (Exn OverflowError ''int too large to convert to float'')"
    by (rule int_to_float_overflow) simp
  then have 5: "is_within_philippines (str_to_float ?env) (PInt (2 ^ 1024)) PNone =
      Inl (Exn OverflowError ''int too large to convert to float'')"
    by (simp add: is_within_philippines_def bind_exn_def)
  show ?thesis
    using save_location_validator_raises [OF 1 2 3 4 5] by simp
qed

section \<open>Listing recent locations: results\<close>

lemma in_take_sorted:
  assumes s: "sorted_wrt (\<lambda>a b. f a \<le> (f b :: int)) xs"
    and y: "y \<in> set (take n xs)" and x: "x \<in> set xs" and lt: "f x < f y"
  shows "x \<in> set (take n xs)"
proof -
  obtain i where i: "i < length (take n xs)" "take n xs ! i = y"
    using y by (auto simp: in_set_conv_nth)
  obtain j where j: "j < length xs" "xs ! j = x"
    using x by (auto simp: in_set_conv_nth)
  have yi: "xs ! i = y" and il: "i < length xs" and i_n: "i < n"
    using i by auto
  have "j < i"
  proof (rule ccontr)
    assume "\<not> j < i"
    then have "i = j \<or> i < j" by auto
    then have "f (xs ! i) \<le> f (xs ! j)"
      using sorted_wrt_nth_less [OF s, of i j] j(1) by auto
    then show False using lt yi j(2) by simp
  qed
  then have "j < length (take n xs)" and "take n xs ! j = x"
    using i(1) j by auto
  then show ?thesis
    by (metis nth_mem)
qed

text \<open>
  Claim C8. With the store available, \<^verbatim>\<open>GET /locations\<close> answers 200 with at most fifty
  records (all of them when there are fewer), ordered by timestamp, most recent first;
  each is a stored document whose identifier has been replaced by its string, and no
  stored document is more recent than a returned one without being returned itself.
\<close>

theorem get_locations_recent:
  assumes "store_fault w = None"
  shows "\<exists>found. get_locations w = Inr (found, 200) \<and>
     length found \<le> 50 \<and>
     length found = min 50 (length (locations w)) \<and>
     sorted_wrt (\<lambda>a b. micros (timestamp b) \<le> micros (timestamp a)) found \<and>
     (\<forall>l \<in> set found. \<exists>l0 \<in> set (locations w). l = l0\<lparr>ident := Str (str_id (ident l0))\<rparr>) \<and>
     (\<forall>l \<in> set found. \<forall>l0 \<in> set (locations w).
        micros (timestamp l) < micros (timestamp l0) \<longrightarrow>
        l0\<lparr>ident := Str (str_id (ident l0))\<rparr> \<in> set found)"
proof -
  define f where "f = (\<lambda>l :: location. - micros (timestamp l))"
  define g where "g = (\<lambda>l :: location. l\<lparr>ident := Str (str_id (ident l))\<rparr>)"
  define xs where "xs = sort_key f (locations w)"
  define found where "found = map g (take 50 xs)"
  have res: "get_locations w = Inr (found, 200)"
    using assms
    by (simp add: get_locations_def find_sort_limit_def bind_exn_def found_def xs_def f_def g_def)
  have len: "length found = min 50 (length (locations w))"
    by (simp add: found_def xs_def min.commute)
  have sx: "sorted_wrt (\<lambda>a b. f a \<le> f b) xs"
    using sorted_sort_key [of f "locations w"] by (simp add: xs_def sorted_map)
  then have "sorted_wrt (\<lambda>a b. f a \<le> f b) (take 50 xs)"
    by (rule sorted_wrt_take)
  moreover have "timestamp (g l) = timestamp l" for l
    by (simp add: g_def)
  ultimately have srt: "sorted_wrt (\<lambda>a b. micros (timestamp b) \<le> micros (timestamp a)) found"
    by (simp add: found_def sorted_wrt_map f_def)
  have mem: "\<exists>l0 \<in> set (locations w). l = g l0" if l: "l \<in> set found" for l
  proof -
    obtain l0 where "l0 \<in> set (take 50 xs)" "l = g l0"
      using l unfolding found_def set_map by blast
    moreover have "set (take 50 xs) \<subseteq> set (locations w)"
      using set_take_subset [of 50 xs] by (simp add: xs_def)
    ultimately show ?thesis by blast
  qed
  have recent: "g l0 \<in> set found"
    if l: "l \<in> set found" and l0: "l0 \<in> set (locations w)"
      and lt: "micros (timestamp l) < micros (timestamp l0)"
    for l l0
  proof -
    obtain y where y: "y \<in> set (take 50 xs)" "l = g y"
      using l unfolding found_def set_map by blast
    have "l0 \<in> set xs"
      using l0 by (simp add: xs_def)
    moreover have "f l0 < f y"
      using lt y(2) by (simp add: f_def g_def)
    ultimately have "l0 \<in> set (take 50 xs)"
      using in_take_sorted [OF sx y(1)] by blast
    then show ?thesis
      by (simp add: found_def)
  qed
  show ?thesis
    using res len srt mem recent unfolding g_def by (intro exI [of _ found]) auto
qed

theorem get_locations_recent_witness:
  "get_locations
     (sample_world\<lparr>locations :=
        [\<lparr>latitude = Finite (29 / 2), longitude = Finite 121,
          address = PDict [(''full_address'', PStr ''Location not found'')],
          timestamp = Datetime 1700000000000000,
          ident = Oid (ObjectId [0, 0, 0, 0, 0, 0, 0, 0, 0, 0, 0, 0])\<rparr>,
         \<lparr>latitude = Finite 10, longitude = Finite 124,
          address = PDict [(''full_address'', PStr ''Location lookup failed'')],
          timestamp = Datetime 1700000060000000,
          ident = Oid (ObjectId [0, 0, 0, 0, 0, 0, 0, 0, 0, 0, 0, 171])\<rparr>]\<rparr>) =
     Inr ([\<lparr>latitude = Finite 10, longitude = Finite 124,
            address = PDict [(''full_address'', PStr ''Location lookup failed'')],
            timestamp = Datetime 1700000060000000,
            ident = Str ''0000000000000000000000ab''\<rparr>,
           \<lparr>latitude = Finite (29 / 2), longitude = Finite 121,
            address = PDict [(''full_address'', PStr ''Location not found'')],
            timestamp = Datetime 1700000000000000,
            ident = Str ''000000000000000000000000''\<rparr>], 200)"
proof -
  let ?w = "sample_world\<lparr>locations :=
        [\<lparr>latitude = Finite (29 / 2), longitude = Finite 121,
          address = PDict [(''full_address'', PStr ''Location not found'')],
          timestamp = Datetime 1700000000000000,
          ident = Oid (ObjectId [0, 0, 0, 0, 0, 0, 0, 0, 0, 0, 0, 0])\<rparr>,
         \<lparr>latitude = Finite 10, longitude = Finite 124,
          address = PDict [(''full_address'', PStr ''Location lookup failed'')],
          timestamp = Datetime 1700000060000000,
          ident = Oid (ObjectId [0, 0, 0, 0, 0, 0, 0, 0, 0, 0, 0, 171])\<rparr>]\<rparr>"
  have 1: "store_fault ?w = None"
    by (simp add: sample_world_def)
  have "get_locations ?w = Inr (map (\<lambda>l. l\<lparr>ident := Str (str_id (ident l))\<rparr>)
          (take 50 (sort_key (\<lambda>l. - micros (timestamp l)) (locations ?w))), 200)"
    using get_locations_recent [OF 1]
    by (simp add: get_locations_def find_sort_limit_def bind_exn_def sample_world_def)
  then show ?thesis
    by (simp add: sample_world_def sort_key_def str_oid_def hex_digit_def)
qed

end
